theory Spec2Isabelle
  imports Complex_Main
begin

section \<open>Errors\<close>

text \<open>
  The enum \<open>VaultErrorCode\<close> of the error module, constructor for constructor.
\<close>

datatype VaultErrorCode =
    INVALID_PARAMETERS
  | VALIDATION_ERROR
  | INSUFFICIENT_BALANCE
  | INSUFFICIENT_RESERVES
  | TRANSACTION_FAILED
  | NETWORK_ERROR
  | TIMEOUT
  | RATE_LIMIT_EXCEEDED
  | UNAUTHORIZED
  | ARITHMETIC_OVERFLOW
  | DIVISION_BY_ZERO
  | UNKNOWN_ERROR

text \<open>
  The validators throw a plain \<open>Error\<close> whose message names the check that failed and
  the offending value. The message is kept as a value of \<open>message\<close>: one constructor per
  message template of \<open>validators.ts\<close>, with the interpolated value as argument.
\<close>

datatype message =
    Invalid_Sui_address string
  | Invalid_coin_type_format string
  | Invalid_amount int
  | Amount_must_be_non_negative int
  | Invalid_rate int
  | Rate_must_be_positive int
  | Invalid_rate_decimals int
  | Must_be_at_least string nat
  | Must_be_at_most string nat
  | Invalid_URL string

text \<open>
  Everything the modelled code can throw: a \<open>VaultError\<close> with its code, a plain
  \<open>Error\<close> of a validator, the \<open>SyntaxError\<close> of the built-in \<open>BigInt\<close> conversion and
  the \<open>TypeError\<close> of the transaction library's scalar encoders.
\<close>

datatype error =
    VaultError VaultErrorCode
  | Error message
  | SyntaxError
  | TypeError

section \<open>Numeric engine\<close>

subsection \<open>The decimal library as configured by the module\<close>

text \<open>
  The calculation module computes with the arbitrary-precision decimal type of
  \<open>bignumber.js\<close>, configured at load time with
  \<^verbatim>\<open>DECIMAL_PLACES: 18, ROUNDING_MODE: ROUND_DOWN, EXPONENTIAL_AT: [-18, 18]\<close>.
  A finite value of that type is a decimal fraction, here a rational number. The
  operations the module calls are modelled with the meaning the library documents:
  \<^item> construction from the decimal text of a \<open>bigint\<close>, multiplication, integer powers
    and comparisons are exact;
  \<^item> \<open>div\<close> rounds the quotient to \<open>DECIMAL_PLACES\<close> decimal places with
    \<open>ROUNDING_MODE\<close>;
  \<^item> \<open>integerValue()\<close> rounds to an integer with \<open>ROUNDING_MODE\<close>;
  \<^item> \<open>toString()\<close> writes exponential notation when the decimal exponent of the value
    is at or beneath the first bound of \<open>EXPONENTIAL_AT\<close>, or at or above the second,
    and normal notation otherwise.
  The numeric arguments are the \<open>bigint\<close> alternative of \<open>string | bigint\<close>, as \<open>int\<close>;
  \<open>rateDecimals\<close> is a natural number.
\<close>

type_synonym BigNumber = rat

definition MAX_U64 :: int where
  "MAX_U64 = 18446744073709551615"

definition DECIMAL_PLACES :: nat where
  "DECIMAL_PLACES = 18"

definition TO_EXP_NEG :: nat where
  "TO_EXP_NEG = 18"

definition TO_EXP_POS :: nat where
  "TO_EXP_POS = 18"

definition ROUND_DOWN :: "rat \<Rightarrow> int" where
  "ROUND_DOWN x = (if 0 \<le> x then \<lfloor>x\<rfloor> else \<lceil>x\<rceil>)"

definition bn_of_bigint :: "int \<Rightarrow> BigNumber" where
  "bn_of_bigint n = of_int n"

definition bn_pow :: "BigNumber \<Rightarrow> nat \<Rightarrow> BigNumber" where
  "bn_pow x n = x ^ n"

definition multipliedBy :: "BigNumber \<Rightarrow> BigNumber \<Rightarrow> BigNumber" where
  "multipliedBy x y = x * y"

definition bn_div :: "BigNumber \<Rightarrow> BigNumber \<Rightarrow> BigNumber" where
  "bn_div x y = of_int (ROUND_DOWN (x / y * 10 ^ DECIMAL_PLACES)) / 10 ^ DECIMAL_PLACES"

definition integerValue :: "BigNumber \<Rightarrow> BigNumber" where
  "integerValue x = of_int (ROUND_DOWN x)"

text \<open>
  The text \<open>toString()\<close> produces is kept by its notation and its value: \<open>Normal x\<close> is
  the digits of \<open>x\<close> with a decimal point where \<open>x\<close> has a fraction (\<^verbatim>\<open>"2000000000"\<close>),
  \<open>Exponential x\<close> is mantissa and exponent (\<^verbatim>\<open>"1e+18"\<close>). The decimal exponent of a
  non-zero value is at least \<open>TO_EXP_POS\<close> exactly when its magnitude is at least
  \<open>10 ^ TO_EXP_POS\<close>, and at most \<open>- TO_EXP_NEG\<close> exactly when its magnitude is below
  \<open>10 ^ - (TO_EXP_NEG - 1)\<close>; zero has exponent 0.
\<close>

datatype bn_text = Normal rat | Exponential rat

definition bn_toString :: "BigNumber \<Rightarrow> bn_text" where
  "bn_toString x =
     (if x \<noteq> 0 \<and> (10 ^ TO_EXP_POS \<le> \<bar>x\<bar> \<or> \<bar>x\<bar> * 10 ^ (TO_EXP_NEG - 1) < 1)
      then Exponential x else Normal x)"

text \<open>
  The built-in \<open>BigInt(text)\<close> accepts the digits of an integer and throws a
  \<open>SyntaxError\<close> on a text with a decimal point or an exponent.
\<close>

definition BigInt :: "bn_text \<Rightarrow> error + int" where
  "BigInt t =
     (case t of
        Exponential x \<Rightarrow> Inl SyntaxError
      | Normal x \<Rightarrow> if x = of_int \<lfloor>x\<rfloor> then Inr \<lfloor>x\<rfloor> else Inl SyntaxError)"

subsection \<open>Exchange calculations\<close>

definition calculateOutputAmount :: "int \<Rightarrow> int \<Rightarrow> nat \<Rightarrow> error + int" where
  "calculateOutputAmount rate inputValue rateDecimals =
     (let rateBN = bn_of_bigint rate;
          inputBN = bn_of_bigint inputValue;
          divisor = bn_pow (bn_of_bigint 10) rateDecimals
      in if rateBN \<le> 0 then Inl (VaultError DIVISION_BY_ZERO)
         else if inputBN < 0 then Inl (VaultError INVALID_PARAMETERS)
         else
           let maxInput = bn_div (bn_of_bigint MAX_U64) rateBN
           in if inputBN > maxInput then Inl (VaultError ARITHMETIC_OVERFLOW)
              else
                let result = bn_div (multipliedBy rateBN inputBN) divisor
                in if result > bn_of_bigint MAX_U64 then Inl (VaultError ARITHMETIC_OVERFLOW)
                   else BigInt (bn_toString (integerValue result)))"

definition calculateInputAmount :: "int \<Rightarrow> int \<Rightarrow> nat \<Rightarrow> error + int" where
  "calculateInputAmount rate outputValue rateDecimals =
     (let rateBN = bn_of_bigint rate;
          outputBN = bn_of_bigint outputValue;
          multiplier = bn_pow (bn_of_bigint 10) rateDecimals
      in if rateBN \<le> 0 then Inl (VaultError DIVISION_BY_ZERO)
         else if outputBN < 0 then Inl (VaultError INVALID_PARAMETERS)
         else
           let maxOutput = bn_div (bn_of_bigint MAX_U64) multiplier
           in if outputBN > maxOutput then Inl (VaultError ARITHMETIC_OVERFLOW)
              else
                let result = bn_div (multipliedBy outputBN multiplier) rateBN
                in if result > bn_of_bigint MAX_U64 then Inl (VaultError ARITHMETIC_OVERFLOW)
                   else BigInt (bn_toString (integerValue result)))"

text \<open>
  The round trip of the specification: the output of \<open>calculateOutputAmount\<close> fed to
  \<open>calculateInputAmount\<close>; an exception of the first call ends the round trip.
\<close>

definition roundTrip :: "int \<Rightarrow> int \<Rightarrow> nat \<Rightarrow> error + int" where
  "roundTrip r a d =
     (case calculateOutputAmount r a d of
        Inl e \<Rightarrow> Inl e
      | Inr out \<Rightarrow> calculateInputAmount r out d)"

section \<open>Validation layer\<close>

text \<open>
  A JavaScript string is modelled as a \<open>string\<close>, one element per code unit; every
  character the validators test for is in the ASCII range. \<open>startsWith\<close>, \<open>slice(2)\<close>
  and \<open>padStart\<close> with a one-character filler are the list operations below.
\<close>

definition startsWith :: "string \<Rightarrow> string \<Rightarrow> bool" where
  "startsWith s p = (take (length p) s = p)"

definition padStart :: "nat \<Rightarrow> char \<Rightarrow> string \<Rightarrow> string" where
  "padStart n c s = replicate (n - length s) c @ s"

text \<open>The character class \<^verbatim>\<open>[0-9a-fA-F]\<close>.\<close>

definition isHexDigit :: "char \<Rightarrow> bool" where
  "isHexDigit c = (c \<in> set ''0123456789abcdefABCDEF'')"

text \<open>The character classes \<^verbatim>\<open>[a-zA-Z_]\<close> and \<^verbatim>\<open>[a-zA-Z0-9_]\<close>.\<close>

definition isIdentStart :: "char \<Rightarrow> bool" where
  "isIdentStart c = (c \<in> set ''abcdefghijklmnopqrstuvwxyzABCDEFGHIJKLMNOPQRSTUVWXYZ_'')"

definition isIdentChar :: "char \<Rightarrow> bool" where
  "isIdentChar c = (isIdentStart c \<or> c \<in> set ''0123456789'')"

text \<open>The test \<^verbatim>\<open>/^[0-9a-fA-F]+$/\<close>: one or more hexadecimal digits and nothing else.\<close>

definition isHexString :: "string \<Rightarrow> bool" where
  "isHexString hex = (hex \<noteq> [] \<and> list_all isHexDigit hex)"

text \<open>The test \<^verbatim>\<open>/^[a-zA-Z_][a-zA-Z0-9_]*$/\<close>.\<close>

definition isIdentifier :: "string \<Rightarrow> bool" where
  "isIdentifier s = (case s of [] \<Rightarrow> False | c # cs \<Rightarrow> isIdentStart c \<and> list_all isIdentChar cs)"

subsection \<open>Addresses\<close>

definition isValidSuiAddress :: "string \<Rightarrow> bool" where
  "isValidSuiAddress address =
     (if address = [] then False
      else if \<not> startsWith address ''0x'' then False
      else
        let hex = drop 2 address
        in if \<not> isHexString hex then False
           else if length hex = 0 \<or> length hex > 64 then False
           else True)"

definition validateSuiAddress :: "string \<Rightarrow> error + string" where
  "validateSuiAddress address =
     (if \<not> isValidSuiAddress address then Inl (Error (Invalid_Sui_address address))
      else
        let hex = drop 2 address;
            padded = padStart 64 (CHR ''0'') hex
        in Inr (''0x'' @ padded))"

subsection \<open>Coin types\<close>

text \<open>\<^verbatim>\<open>coinType.split('::')\<close>: the pieces between the occurrences of the separator, found left to right.\<close>

fun split_colons :: "string \<Rightarrow> string list" where
  "split_colons [] = [[]]"
| "split_colons [c] = [[c]]"
| "split_colons (c # c' # cs) =
     (if c = CHR '':'' \<and> c' = CHR '':'' then [] # split_colons cs
      else (case split_colons (c' # cs) of
              [] \<Rightarrow> [[c]]
            | p # ps \<Rightarrow> (c # p) # ps))"

definition isValidCoinType :: "string \<Rightarrow> bool" where
  "isValidCoinType coinType =
     (if coinType = [] then False
      else
        (case split_colons coinType of
           [address, module', struct'] \<Rightarrow>
             if \<not> isValidSuiAddress address then False
             else if \<not> isIdentifier module' then False
             else if \<not> isIdentifier struct' then False
             else True
         | _ \<Rightarrow> False))"

definition validateCoinType :: "string \<Rightarrow> error + string" where
  "validateCoinType coinType =
     (if \<not> isValidCoinType coinType then Inl (Error (Invalid_coin_type_format coinType))
      else Inr coinType)"

subsection \<open>Amounts, rates, rate decimals, lengths, URLs\<close>

text \<open>
  For a \<open>bigint\<close> argument \<open>BigInt(amount.toString())\<close> is the argument itself and does
  not throw, so the \<open>catch\<close> branch of the predicates is not taken.
\<close>

definition isValidAmount :: "int \<Rightarrow> bool" where
  "isValidAmount amount = (amount \<ge> 0)"

definition validateAmount :: "int \<Rightarrow> error + int" where
  "validateAmount amount =
     (if \<not> isValidAmount amount then Inl (Error (Invalid_amount amount))
      else if amount < 0 then Inl (Error (Amount_must_be_non_negative amount))
      else Inr amount)"

definition isValidRate :: "int \<Rightarrow> bool" where
  "isValidRate rate = (rate > 0)"

definition validateRate :: "int \<Rightarrow> error + int" where
  "validateRate rate =
     (if \<not> isValidRate rate then Inl (Error (Invalid_rate rate))
      else if rate \<le> 0 then Inl (Error (Rate_must_be_positive rate))
      else Inr rate)"

text \<open>\<open>decimals\<close> is an integer-valued number, for which \<open>Number.isInteger\<close> holds.\<close>

definition validateRateDecimals :: "int \<Rightarrow> error + int" where
  "validateRateDecimals decimals =
     (if decimals < 0 \<or> decimals > 18 then Inl (Error (Invalid_rate_decimals decimals))
      else Inr decimals)"

text \<open>Every call of \<open>validateStringLength\<close> in the repository passes \<open>min\<close>, \<open>max\<close> and \<open>fieldName\<close>.\<close>

definition validateStringLength :: "string \<Rightarrow> nat \<Rightarrow> nat \<Rightarrow> string \<Rightarrow> error + string" where
  "validateStringLength v mn mx fieldName =
     (if length v < mn then Inl (Error (Must_be_at_least fieldName mn))
      else if length v > mx then Inl (Error (Must_be_at_most fieldName mx))
      else Inr v)"

text \<open>
  \<open>isValidUrl\<close> asks the platform's \<open>URL\<close> constructor whether the text parses. The
  parser is outside the repository: it is the parameter \<open>parses\<close>.
\<close>

definition isValidUrl :: "(string \<Rightarrow> bool) \<Rightarrow> string \<Rightarrow> bool" where
  "isValidUrl parses url = parses url"

definition validateUrl :: "(string \<Rightarrow> bool) \<Rightarrow> string \<Rightarrow> error + string" where
  "validateUrl parses url =
     (if \<not> isValidUrl parses url then Inl (Error (Invalid_URL url)) else Inr url)"

subsection \<open>Composite validation\<close>

record VaultConfig =
  rate :: int
  rateDecimals :: int
  symbol :: string
  name :: string
  description :: string
  iconUrl :: "string option"
  inputCoinType :: string
  outputCoinType :: string

text \<open>
  A statement that throws ends the function with that error; the next statement runs
  only when it returned. \<open>if (config.iconUrl)\<close> holds for a present, non-empty text.
\<close>

definition validateVaultConfig :: "(string \<Rightarrow> bool) \<Rightarrow> 'a VaultConfig_scheme \<Rightarrow> error + unit" where
  "validateVaultConfig parses config =
     (case validateRate (rate config) of Inl e \<Rightarrow> Inl e | Inr _ \<Rightarrow>
      case validateRateDecimals (rateDecimals config) of Inl e \<Rightarrow> Inl e | Inr _ \<Rightarrow>
      case validateStringLength (symbol config) 1 32 ''Symbol'' of Inl e \<Rightarrow> Inl e | Inr _ \<Rightarrow>
      case validateStringLength (name config) 1 256 ''Name'' of Inl e \<Rightarrow> Inl e | Inr _ \<Rightarrow>
      case validateStringLength (description config) 1 1000 ''Description'' of Inl e \<Rightarrow> Inl e | Inr _ \<Rightarrow>
      case validateCoinType (inputCoinType config) of Inl e \<Rightarrow> Inl e | Inr _ \<Rightarrow>
      case validateCoinType (outputCoinType config) of Inl e \<Rightarrow> Inl e | Inr _ \<Rightarrow>
      (case iconUrl config of
         None \<Rightarrow> Inr ()
       | Some url \<Rightarrow>
           if url \<noteq> [] then
             (case validateUrl parses url of Inl e \<Rightarrow> Inl e | Inr _ \<Rightarrow> Inr ())
           else Inr ()))"

text \<open>
  The composite validation in the words of the specification: the checks as a list in
  the stated order, each giving the constraint it finds violated, and the first
  violation of the list as the outcome.
\<close>

definition length_violation :: "string \<Rightarrow> nat \<Rightarrow> nat \<Rightarrow> string \<Rightarrow> error option" where
  "length_violation v mn mx fieldName =
     (if length v < mn then Some (Error (Must_be_at_least fieldName mn))
      else if mx < length v then Some (Error (Must_be_at_most fieldName mx))
      else None)"

definition config_checks :: "(string \<Rightarrow> bool) \<Rightarrow> ('a VaultConfig_scheme \<Rightarrow> error option) list" where
  "config_checks parses =
     [\<lambda>c. if 0 < rate c then None else Some (Error (Invalid_rate (rate c))),
      \<lambda>c. if 0 \<le> rateDecimals c \<and> rateDecimals c \<le> 18 then None
           else Some (Error (Invalid_rate_decimals (rateDecimals c))),
      \<lambda>c. length_violation (symbol c) 1 32 ''Symbol'',
      \<lambda>c. length_violation (name c) 1 256 ''Name'',
      \<lambda>c. length_violation (description c) 1 1000 ''Description'',
      \<lambda>c. if isValidCoinType (inputCoinType c) then None
           else Some (Error (Invalid_coin_type_format (inputCoinType c))),
      \<lambda>c. if isValidCoinType (outputCoinType c) then None
           else Some (Error (Invalid_coin_type_format (outputCoinType c))),
      \<lambda>c. (case iconUrl c of
              None \<Rightarrow> None
            | Some url \<Rightarrow> if url = [] \<or> parses url then None else Some (Error (Invalid_URL url)))]"

fun first_violation :: "('c \<Rightarrow> error option) list \<Rightarrow> 'c \<Rightarrow> error option" where
  "first_violation [] c = None"
| "first_violation (check # checks) c =
     (case check c of Some e \<Rightarrow> Some e | None \<Rightarrow> first_violation checks c)"

section \<open>Call builder\<close>

subsection \<open>The transaction accumulator\<close>

text \<open>
  The accumulator is the \<open>Transaction\<close> of the chain's client library: the ordered
  list of the calls appended so far. An argument of a call is an object reference made
  by \<open>tx.object\<close> from an id, a pure value made by one of the \<open>tx.pure\<close> encoders, or
  the result of an earlier call. \<open>TransactionObjectInput\<close> is an id text or an argument
  that is already resolved.
\<close>

datatype tx_arg =
    Object string
  | Pure_u64 int
  | Pure_u8 int
  | Pure_string string
  | Pure_vector_u8 "nat list"
  | Pure_address string
  | Result nat
  | NestedResult nat nat

datatype TransactionObjectInput = Id string | Argument tx_arg

datatype command =
    MoveCall string "string list" "tx_arg list"
  | TransferObjects "tx_arg list" tx_arg

type_synonym Transaction = "command list"

text \<open>
  \<open>tx.moveCall\<close> appends the call and returns its result, which names the call by its
  position; \<open>const [x] = tx.moveCall(...)\<close> takes the first value of that result.
\<close>

definition moveCall :: "Transaction \<Rightarrow> string \<Rightarrow> string list \<Rightarrow> tx_arg list \<Rightarrow> tx_arg \<times> Transaction" where
  "moveCall tx target typeArguments arguments =
     (Result (length tx), tx @ [MoveCall target typeArguments arguments])"

definition first_of :: "tx_arg \<Rightarrow> tx_arg" where
  "first_of r = (case r of Result i \<Rightarrow> NestedResult i 0 | other \<Rightarrow> other)"

text \<open>\<^verbatim>\<open>typeof x === 'string' ? tx.object(x) : x\<close>\<close>

definition object_of :: "TransactionObjectInput \<Rightarrow> tx_arg" where
  "object_of x = (case x of Id s \<Rightarrow> Object s | Argument a \<Rightarrow> a)"

text \<open>
  The scalar encoders \<open>tx.pure.u64\<close> and \<open>tx.pure.u8\<close> serialize at once and throw a
  \<open>TypeError\<close> on a value outside the range of the type.
\<close>

definition pure_u64 :: "int \<Rightarrow> error + tx_arg" where
  "pure_u64 v = (if 0 \<le> v \<and> v \<le> MAX_U64 then Inr (Pure_u64 v) else Inl TypeError)"

definition pure_u8 :: "int \<Rightarrow> error + tx_arg" where
  "pure_u8 v = (if 0 \<le> v \<and> v \<le> 255 then Inr (Pure_u8 v) else Inl TypeError)"

text \<open>
  \<open>new TextEncoder().encode\<close> is UTF-8: a code unit below 128 is one byte, a code unit
  from 128 to 255 (the largest a \<open>char\<close> holds) is the two bytes \<open>192 + n div 64\<close> and
  \<open>128 + n mod 64\<close>.
\<close>

definition utf8 :: "char \<Rightarrow> nat list" where
  "utf8 c = (let n = of_char c :: nat in if n < 128 then [n] else [192 + n div 64, 128 + n mod 64])"

definition encode :: "string \<Rightarrow> nat list" where
  "encode s = concat (map utf8 s)"

definition VAULT_MODULES_VAULT :: string where
  "VAULT_MODULES_VAULT = ''vault''"

definition CREATE_VAULT :: string where
  "CREATE_VAULT = ''create_vault''"

definition MINT :: string where
  "MINT = ''mint''"

definition REDEEM :: string where
  "REDEEM = ''redeem''"

definition DEPOSIT :: string where
  "DEPOSIT = ''deposit''"

definition WITHDRAW :: string where
  "WITHDRAW = ''withdraw''"

definition SET_RATE :: string where
  "SET_RATE = ''set_rate''"

definition vault_target :: "string \<Rightarrow> string \<Rightarrow> string" where
  "vault_target packageId function = packageId @ ''::'' @ VAULT_MODULES_VAULT @ ''::'' @ function"

subsection \<open>Builders\<close>

text \<open>
  A builder mutates the transaction in place, so the transaction it leaves behind is
  part of its outcome also when it throws: a builder returns its result or error
  together with the transaction. The arguments of a call are evaluated, left to right,
  before the call is appended.
\<close>

record CreateVaultParams = VaultConfig +
  outputCoinTreasury :: TransactionObjectInput

definition buildCreateVaultTx ::
  "Transaction \<Rightarrow> string \<Rightarrow> CreateVaultParams \<Rightarrow> (error + unit) \<times> Transaction" where
  "buildCreateVaultTx tx packageId params =
     (let symbolBytes = encode (symbol params);
          nameBytes = encode (name params);
          descriptionBytes = encode (description params);
          (optionUrl, tx1) =
            (case iconUrl params of
               Some url \<Rightarrow>
                 if length url > 0 then
                   let (r1, t1) = moveCall tx ''0x2::url::new_unsafe'' [] [Pure_string url];
                       urlVal = first_of r1;
                       (r2, t2) = moveCall t1 ''0x1::option::some'' [''0x2::url::Url''] [urlVal]
                   in (first_of r2, t2)
                 else
                   let (r, t) = moveCall tx ''0x1::option::none'' [''0x2::url::Url''] []
                   in (first_of r, t)
             | None \<Rightarrow>
                 let (r, t) = moveCall tx ''0x1::option::none'' [''0x2::url::Url''] []
                 in (first_of r, t))
      in case pure_u64 (rate params) of
           Inl e \<Rightarrow> (Inl e, tx1)
         | Inr rateArg \<Rightarrow>
             let treasury = object_of (outputCoinTreasury params)
             in case pure_u8 (rateDecimals params) of
                  Inl e \<Rightarrow> (Inl e, tx1)
                | Inr decimalsArg \<Rightarrow>
                    let (r, tx2) =
                          moveCall tx1 (vault_target packageId CREATE_VAULT)
                            [inputCoinType params, outputCoinType params]
                            [rateArg, treasury, decimalsArg,
                             Pure_vector_u8 symbolBytes, Pure_vector_u8 nameBytes,
                             Pure_vector_u8 descriptionBytes, optionUrl]
                    in (Inr (), tx2))"

text \<open>
  The other builders take the fields of their \<open>params\<close> object as arguments, in the
  order of the object type.
\<close>

definition buildMintTx ::
  "Transaction \<Rightarrow> string \<Rightarrow> string \<Rightarrow> string \<Rightarrow> TransactionObjectInput \<Rightarrow> string \<Rightarrow> string
   \<Rightarrow> (error + tx_arg) \<times> Transaction" where
  "buildMintTx tx packageId vaultId metadataId inputCoin inCoinType outCoinType =
     (let (r, tx') = moveCall tx (vault_target packageId MINT) [inCoinType, outCoinType]
                       [Object vaultId, Object metadataId, object_of inputCoin];
          minted = first_of r
      in (Inr minted, tx'))"

definition buildRedeemTx ::
  "Transaction \<Rightarrow> string \<Rightarrow> string \<Rightarrow> string \<Rightarrow> TransactionObjectInput \<Rightarrow> string \<Rightarrow> string
   \<Rightarrow> (error + tx_arg) \<times> Transaction" where
  "buildRedeemTx tx packageId vaultId metadataId outputCoin inCoinType outCoinType =
     (let (r, tx') = moveCall tx (vault_target packageId REDEEM) [inCoinType, outCoinType]
                       [Object vaultId, Object metadataId, object_of outputCoin];
          redeemed = first_of r
      in (Inr redeemed, tx'))"

definition buildDepositTx ::
  "Transaction \<Rightarrow> string \<Rightarrow> TransactionObjectInput \<Rightarrow> string \<Rightarrow> TransactionObjectInput \<Rightarrow> string \<Rightarrow> string
   \<Rightarrow> (error + unit) \<times> Transaction" where
  "buildDepositTx tx packageId ownerCap vaultId inputCoin inCoinType outCoinType =
     (let (r, tx') = moveCall tx (vault_target packageId DEPOSIT) [inCoinType, outCoinType]
                       [object_of ownerCap, Object vaultId, object_of inputCoin]
      in (Inr (), tx'))"

definition buildWithdrawTx ::
  "Transaction \<Rightarrow> string \<Rightarrow> TransactionObjectInput \<Rightarrow> string \<Rightarrow> int \<Rightarrow> string \<Rightarrow> string
   \<Rightarrow> (error + tx_arg) \<times> Transaction" where
  "buildWithdrawTx tx packageId ownerCap vaultId amount inCoinType outCoinType =
     (case pure_u64 amount of
        Inl e \<Rightarrow> (Inl e, tx)
      | Inr amountArg \<Rightarrow>
          let (r, tx') = moveCall tx (vault_target packageId WITHDRAW) [inCoinType, outCoinType]
                           [object_of ownerCap, Object vaultId, amountArg];
              withdrawn = first_of r
          in (Inr withdrawn, tx'))"

definition buildSetRateTx ::
  "Transaction \<Rightarrow> string \<Rightarrow> TransactionObjectInput \<Rightarrow> string \<Rightarrow> int \<Rightarrow> string \<Rightarrow> string
   \<Rightarrow> (error + unit) \<times> Transaction" where
  "buildSetRateTx tx packageId ownerCap vaultId newRate inCoinType outCoinType =
     (case pure_u64 newRate of
        Inl e \<Rightarrow> (Inl e, tx)
      | Inr rateArg \<Rightarrow>
          let (r, tx') = moveCall tx (vault_target packageId SET_RATE) [inCoinType, outCoinType]
                           [object_of ownerCap, Object vaultId, rateArg]
          in (Inr (), tx'))"

section \<open>Client\<close>

text \<open>
  The client holds the package id of its configuration and asks the chain for the type
  of a vault; the answer of the chain (or the failure of the request) is the field
  \<open>inferOutputTypeFromVault\<close>. A rejected promise is an error like a thrown one.
\<close>

record RivaClient =
  packageId :: string
  inferOutputTypeFromVault :: "string \<Rightarrow> error + string"

text \<open>The test \<^verbatim>\<open>/^0x[0-9a-fA-F]{64}$/\<close>.\<close>

definition isObjectIdString :: "string \<Rightarrow> bool" where
  "isObjectIdString v =
     (take 2 v = ''0x'' \<and> length (drop 2 v) = 64 \<and> list_all isHexDigit (drop 2 v))"

definition createVault ::
  "RivaClient \<Rightarrow> (string \<Rightarrow> bool) \<Rightarrow> VaultConfig \<Rightarrow> TransactionObjectInput \<Rightarrow> Transaction
   \<Rightarrow> (error + unit) \<times> Transaction" where
  "createVault client parses config treasury transaction =
     (case validateVaultConfig parses config of
        Inl e \<Rightarrow> (Inl e, transaction)
      | Inr _ \<Rightarrow>
          buildCreateVaultTx transaction (packageId client)
            \<lparr>rate = rate config,
             rateDecimals = rateDecimals config,
             symbol = symbol config,
             name = name config,
             description = description config,
             iconUrl = (case iconUrl config of
                          None \<Rightarrow> None
                        | Some url \<Rightarrow> if url \<noteq> [] then Some url else None),
             inputCoinType = inputCoinType config,
             outputCoinType = outputCoinType config,
             outputCoinTreasury = treasury\<rparr>)"

text \<open>
  The object-id gate that \<open>mint\<close>, \<open>mint_and_transfer\<close>, \<open>redeem_and_transfer\<close> and
  \<open>deposit\<close> each write out: a text that is not an object id is refused with
  \<open>INVALID_PARAMETERS\<close>, anything else is passed on unchanged.
\<close>

definition object_id_gate :: "TransactionObjectInput \<Rightarrow> error + TransactionObjectInput" where
  "object_id_gate coin =
     (case coin of
        Id s \<Rightarrow> if \<not> isObjectIdString s then Inl (VaultError INVALID_PARAMETERS) else Inr (Id s)
      | Argument a \<Rightarrow> Inr (Argument a))"


text \<open>
  \<open>transaction.pure.address\<close> validates the recipient in the client library; its
  outcome is the parameter \<open>pure_address\<close>. It is an argument of \<open>transferObjects\<close> and
  so evaluated after the mint or redeem call has been appended.
\<close>

definition mint_and_transfer ::
  "RivaClient \<Rightarrow> (string \<Rightarrow> error + tx_arg) \<Rightarrow> string \<Rightarrow> string \<Rightarrow> TransactionObjectInput \<Rightarrow> string
   \<Rightarrow> string \<Rightarrow> string \<Rightarrow> Transaction \<Rightarrow> (error + unit) \<times> Transaction" where
  "mint_and_transfer client pure_address vaultId metadataId inputCoin inCoinType outCoinType
     recipient transaction =
     (case validateCoinType inCoinType of Inl e \<Rightarrow> (Inl e, transaction) | Inr _ \<Rightarrow>
      case validateCoinType outCoinType of Inl e \<Rightarrow> (Inl e, transaction) | Inr _ \<Rightarrow>
      case object_id_gate inputCoin of Inl e \<Rightarrow> (Inl e, transaction) | Inr inputCoin' \<Rightarrow>
      case buildMintTx transaction (packageId client) vaultId metadataId inputCoin' inCoinType outCoinType of
        (Inl e, tx') \<Rightarrow> (Inl e, tx')
      | (Inr minted, tx') \<Rightarrow>
          (case pure_address recipient of
             Inl e \<Rightarrow> (Inl e, tx')
           | Inr to \<Rightarrow> (Inr (), tx' @ [TransferObjects [minted] to])))"




section \<open>Properties of the numeric engine\<close>

subsection \<open>Rounding down at a fixed number of decimal places\<close>

lemma ROUND_DOWN_nonneg: "0 \<le> x \<Longrightarrow> ROUND_DOWN x = \<lfloor>x\<rfloor>"
  by (simp add: ROUND_DOWN_def)

lemma scaled_floor_less:
  fixes x :: rat
  shows "(of_int \<lfloor>x * 10 ^ n\<rfloor> / 10 ^ n < (of_int a :: rat)) = (\<lfloor>x\<rfloor> < a)"
proof -
  have "(of_int \<lfloor>x * 10 ^ n\<rfloor> / 10 ^ n < (of_int a :: rat))
        = ((of_int \<lfloor>x * 10 ^ n\<rfloor> :: rat) < of_int a * 10 ^ n)"
    by (simp add: pos_divide_less_eq)
  also have "\<dots> = ((of_int \<lfloor>x * 10 ^ n\<rfloor> :: rat) < of_int (a * 10 ^ n))"
    by simp
  also have "\<dots> = (\<lfloor>x * 10 ^ n\<rfloor> < a * 10 ^ n)"
    by (simp only: of_int_less_iff)
  also have "\<dots> = (x * 10 ^ n < of_int (a * 10 ^ n))"
    by (simp only: floor_less_iff)
  also have "\<dots> = (x < of_int a)"
    by simp
  also have "\<dots> = (\<lfloor>x\<rfloor> < a)"
    by (simp only: floor_less_iff)
  finally show ?thesis .
qed

lemma scaled_floor_floor:
  fixes x :: rat
  shows "\<lfloor>of_int \<lfloor>x * 10 ^ n\<rfloor> / (10 ^ n :: rat)\<rfloor> = \<lfloor>x\<rfloor>"
proof -
  have "\<And>a. (\<lfloor>of_int \<lfloor>x * 10 ^ n\<rfloor> / (10 ^ n :: rat)\<rfloor> < a) = (\<lfloor>x\<rfloor> < a)"
    by (simp only: floor_less_iff scaled_floor_less)
  then show ?thesis
    by (metis less_irrefl linorder_neqE_linordered_idom)
qed

lemma scaled_floor_le:
  fixes x :: rat
  shows "of_int \<lfloor>x * 10 ^ n\<rfloor> / (10 ^ n :: rat) \<le> x"
proof -
  have "(of_int \<lfloor>x * 10 ^ n\<rfloor> :: rat) \<le> x * 10 ^ n"
    by (rule of_int_floor_le)
  then show ?thesis
    by (simp add: pos_divide_le_eq)
qed

lemma bn_div_nonneg:
  "0 \<le> x \<Longrightarrow> 0 < y \<Longrightarrow> bn_div x y = of_int \<lfloor>x / y * 10 ^ 18\<rfloor> / 10 ^ 18"
  by (simp add: bn_div_def DECIMAL_PLACES_def ROUND_DOWN_nonneg)

lemma floor_quotient_pow10:
  "\<lfloor>(of_int k :: rat) / 10 ^ d\<rfloor> = k div 10 ^ d"
proof -
  have "(10 :: rat) ^ d = of_int (10 ^ d)" by simp
  then show ?thesis by (simp only: floor_divide_of_int_eq)
qed

lemma mult_le_of_le_div:
  fixes a r m :: int
  assumes "0 < r" "a \<le> m div r"
  shows "r * a \<le> m"
proof -
  have "r * a \<le> r * (m div r)" using assms by simp
  moreover have "m = r * (m div r) + m mod r" by simp
  moreover have "0 \<le> m mod r" using assms(1) by simp
  ultimately show ?thesis by linarith
qed

lemma le_div_of_mult_le:
  fixes a r m :: int
  assumes "0 < r" "r * a \<le> m"
  shows "a \<le> m div r"
proof -
  have "a = (r * a) div r" using assms(1) by simp
  also have "\<dots> \<le> m div r" using assms by (intro zdiv_mono1) auto
  finally show ?thesis .
qed

lemma BigInt_toString_integer:
  "0 \<le> k \<Longrightarrow> BigInt (bn_toString (of_int k)) = (if 10 ^ 18 \<le> k then Inl SyntaxError else Inr k)"
proof -
  assume k: "0 \<le> k"
  have a: "\<bar>of_int k :: rat\<bar> = of_int k" using k by simp
  have b: "((10 :: rat) ^ 18 \<le> of_int k) = (10 ^ 18 \<le> k)"
  proof -
    have "(10 :: rat) ^ 18 = of_int (10 ^ 18)" by simp
    then show ?thesis by (simp only: of_int_le_iff)
  qed
  have c: "k \<noteq> 0 \<Longrightarrow> \<not> ((of_int k :: rat) * 10 ^ 17 < 1)"
  proof -
    assume "k \<noteq> 0"
    then have "1 \<le> k" using k by simp
    then have "(1 :: rat) \<le> of_int k" by simp
    moreover have "(1 :: rat) \<le> 10 ^ 17" by simp
    ultimately have "(1 :: rat) * 1 \<le> of_int k * 10 ^ 17" by (intro mult_mono) auto
    then show ?thesis by simp
  qed
  show ?thesis
    using c by (auto simp: bn_toString_def BigInt_def TO_EXP_POS_def TO_EXP_NEG_def a b)
qed

lemma calculateOutputAmount_eq:
  "calculateOutputAmount r a d =
     (if r \<le> 0 then Inl (VaultError DIVISION_BY_ZERO)
      else if a < 0 then Inl (VaultError INVALID_PARAMETERS)
      else if MAX_U64 div r < a then Inl (VaultError ARITHMETIC_OVERFLOW)
      else if 10 ^ 18 \<le> (r * a) div 10 ^ d then Inl SyntaxError
      else Inr ((r * a) div 10 ^ d))"
proof (cases "r \<le> 0 \<or> a < 0")
  case True
  then show ?thesis
    by (auto simp: calculateOutputAmount_def bn_of_bigint_def Let_def)
next
  case False
  then have r: "0 < r" and a: "0 \<le> a" by auto
  have M: "0 \<le> MAX_U64" by (simp add: MAX_U64_def)
  have maxInput: "bn_div (of_int MAX_U64) (of_int r)
                  = of_int \<lfloor>(of_int MAX_U64 :: rat) / of_int r * 10 ^ 18\<rfloor> / 10 ^ 18"
    using r M by (intro bn_div_nonneg) auto
  have gt: "(bn_div (of_int MAX_U64) (of_int r) < of_int a) = (MAX_U64 div r < a)"
    unfolding maxInput by (simp only: scaled_floor_less floor_divide_of_int_eq)
  have ra: "0 \<le> r * a" using r a by simp
  have prod: "(of_int r :: rat) * of_int a = of_int (r * a)" by simp
  have ra': "0 \<le> (of_int (r * a) :: rat)" using ra by (simp only: of_int_0_le_iff)
  have p10: "0 < (10 :: rat) ^ d" by simp
  have result: "bn_div (of_int (r * a)) (10 ^ d)
                = of_int \<lfloor>(of_int (r * a) :: rat) / 10 ^ d * 10 ^ 18\<rfloor> / 10 ^ 18"
    using ra' p10 by (rule bn_div_nonneg)
  have fl: "\<lfloor>bn_div (of_int (r * a)) (10 ^ d)\<rfloor> = (r * a) div 10 ^ d"
    unfolding result by (subst scaled_floor_floor) (rule floor_quotient_pow10)
  have le: "bn_div (of_int (r * a)) (10 ^ d) \<le> (of_int (r * a) :: rat) / 10 ^ d"
    unfolding result by (rule scaled_floor_le)
  have q: "0 \<le> (r * a) div 10 ^ d"
    using ra by (simp add: pos_imp_zdiv_nonneg_iff)
  have nn: "0 \<le> bn_div (of_int (r * a)) (10 ^ d)"
  proof -
    have "(0 :: rat) \<le> of_int \<lfloor>bn_div (of_int (r * a)) (10 ^ d)\<rfloor>"
      unfolding fl using q by (simp only: of_int_0_le_iff)
    also have "\<dots> \<le> bn_div (of_int (r * a)) (10 ^ d)" by (rule of_int_floor_le)
    finally show ?thesis .
  qed
  have iv: "integerValue (bn_div (of_int (r * a)) (10 ^ d)) = of_int ((r * a) div 10 ^ d)"
    by (simp only: integerValue_def ROUND_DOWN_nonneg [OF nn] fl)
  have fits: "\<not> of_int MAX_U64 < bn_div (of_int (r * a)) (10 ^ d)" if "a \<le> MAX_U64 div r"
  proof -
    have "(1 :: rat) \<le> 10 ^ d" by simp
    then have "(of_int (r * a) :: rat) / 10 ^ d \<le> of_int (r * a) / 1"
      using ra' by (intro divide_left_mono) auto
    then have "(of_int (r * a) :: rat) / 10 ^ d \<le> of_int (r * a)" by simp
    moreover have "(of_int (r * a) :: rat) \<le> of_int MAX_U64"
      using mult_le_of_le_div [OF r that] by (simp only: of_int_le_iff)
    ultimately show ?thesis using le by linarith
  qed
  show ?thesis
    using r a gt fits
    by (auto simp add: calculateOutputAmount_def bn_of_bigint_def bn_pow_def multipliedBy_def Let_def
        prod iv BigInt_toString_integer [OF q] not_less simp del: of_int_mult)
qed

lemma calculateInputAmount_eq:
  "calculateInputAmount r out d =
     (if r \<le> 0 then Inl (VaultError DIVISION_BY_ZERO)
      else if out < 0 then Inl (VaultError INVALID_PARAMETERS)
      else if MAX_U64 div 10 ^ d < out then Inl (VaultError ARITHMETIC_OVERFLOW)
      else if 10 ^ 18 \<le> (out * 10 ^ d) div r then Inl SyntaxError
      else Inr ((out * 10 ^ d) div r))"
proof (cases "r \<le> 0 \<or> out < 0")
  case True
  then show ?thesis
    by (auto simp: calculateInputAmount_def bn_of_bigint_def Let_def)
next
  case False
  then have r: "0 < r" and a: "0 \<le> out" by auto
  have M: "0 \<le> (of_int MAX_U64 :: rat)" by (simp add: MAX_U64_def)
  have p10: "0 < (10 :: rat) ^ d" by simp
  have p10i: "(10 :: rat) ^ d = of_int (10 ^ d)" by simp
  have p10p: "(0::int) < 10 ^ d" by simp
  have r': "0 < (of_int r :: rat)" using r by simp
  have maxOutput: "bn_div (of_int MAX_U64) (10 ^ d)
                  = of_int \<lfloor>(of_int MAX_U64 :: rat) / 10 ^ d * 10 ^ 18\<rfloor> / 10 ^ 18"
    using M p10 by (rule bn_div_nonneg)
  have gt: "(bn_div (of_int MAX_U64) (10 ^ d) < of_int out) = (MAX_U64 div 10 ^ d < out)"
    unfolding maxOutput by (simp only: scaled_floor_less floor_quotient_pow10)
  have ra: "0 \<le> out * 10 ^ d" using a by simp
  have prod: "(of_int out :: rat) * 10 ^ d = of_int (out * 10 ^ d)" by simp
  have ra': "0 \<le> (of_int (out * 10 ^ d) :: rat)" using ra by (simp only: of_int_0_le_iff)
  have result: "bn_div (of_int (out * 10 ^ d)) (of_int r)
                = of_int \<lfloor>(of_int (out * 10 ^ d) :: rat) / of_int r * 10 ^ 18\<rfloor> / 10 ^ 18"
    using ra' r' by (rule bn_div_nonneg)
  have fl: "\<lfloor>bn_div (of_int (out * 10 ^ d)) (of_int r)\<rfloor> = (out * 10 ^ d) div r"
    unfolding result by (subst scaled_floor_floor) (rule floor_divide_of_int_eq)
  have le: "bn_div (of_int (out * 10 ^ d)) (of_int r) \<le> (of_int (out * 10 ^ d) :: rat) / of_int r"
    unfolding result by (rule scaled_floor_le)
  have q: "0 \<le> (out * 10 ^ d) div r"
    using ra r by (simp add: pos_imp_zdiv_nonneg_iff)
  have nn: "0 \<le> bn_div (of_int (out * 10 ^ d)) (of_int r)"
  proof -
    have "(0 :: rat) \<le> of_int \<lfloor>bn_div (of_int (out * 10 ^ d)) (of_int r)\<rfloor>"
      unfolding fl using q by (simp only: of_int_0_le_iff)
    also have "\<dots> \<le> bn_div (of_int (out * 10 ^ d)) (of_int r)" by (rule of_int_floor_le)
    finally show ?thesis .
  qed
  have iv: "integerValue (bn_div (of_int (out * 10 ^ d)) (of_int r)) = of_int ((out * 10 ^ d) div r)"
    by (simp only: integerValue_def ROUND_DOWN_nonneg [OF nn] fl)
  have fits: "\<not> of_int MAX_U64 < bn_div (of_int (out * 10 ^ d)) (of_int r)"
    if "out \<le> MAX_U64 div 10 ^ d"
  proof -
    have "(1 :: rat) \<le> of_int r" using r by simp
    then have "(of_int (out * 10 ^ d) :: rat) / of_int r \<le> of_int (out * 10 ^ d) / 1"
      using ra' by (intro divide_left_mono) auto
    then have "(of_int (out * 10 ^ d) :: rat) / of_int r \<le> of_int (out * 10 ^ d)" by simp
    moreover have "(of_int (out * 10 ^ d) :: rat) \<le> of_int MAX_U64"
      using mult_le_of_le_div [OF p10p that] by (simp only: of_int_le_iff mult.commute)
    ultimately show ?thesis using le by linarith
  qed
  show ?thesis
    using r a gt fits
    by (auto simp add: calculateInputAmount_def bn_of_bigint_def bn_pow_def multipliedBy_def Let_def
        prod iv BigInt_toString_integer [OF q] not_less simp del: of_int_mult of_int_power)
qed

subsection \<open>Claims about the exchange calculations\<close>

text \<open>
  C1. Whenever \<open>calculateOutputAmount r a d\<close> returns a value, the value is exactly
  \<open>\<lfloor>r \<times> a / 10^d\<rfloor>\<close>: the integer quotient, which is the exact quotient rounded toward
  zero, and never more than the exact quotient. A call that returns has \<open>r > 0\<close> and
  \<open>a \<ge> 0\<close>, so the statement covers every rate, amount and number of decimals of the
  claim.
\<close>

theorem calculateOutputAmount_floor:
  assumes "calculateOutputAmount r a d = Inr v"
  shows "v = (r * a) div 10 ^ d
         \<and> v = ROUND_DOWN (of_int r * of_int a / 10 ^ d)
         \<and> (of_int v :: rat) \<le> of_int r * of_int a / 10 ^ d"
proof -
  from assms have r: "0 < r" and a: "0 \<le> a" and v: "v = (r * a) div 10 ^ d"
    by (auto simp: calculateOutputAmount_eq split: if_splits)
  have fl: "\<lfloor>(of_int (r * a) :: rat) / 10 ^ d\<rfloor> = v"
    unfolding v by (rule floor_quotient_pow10)
  have nn: "0 \<le> (of_int (r * a) :: rat) / 10 ^ d"
    using r a by simp
  have "ROUND_DOWN (of_int (r * a) / 10 ^ d) = v"
    using ROUND_DOWN_nonneg [OF nn] fl by simp
  moreover have "(of_int v :: rat) \<le> of_int (r * a) / 10 ^ d"
    unfolding fl [symmetric] by (rule of_int_floor_le)
  ultimately show ?thesis
    using v by simp
qed

theorem calculateOutputAmount_floor_witness:
  "calculateOutputAmount 1 15 1 = Inr 1
   \<and> (1 :: int) = (1 * 15) div 10 ^ 1
   \<and> (1 :: int) = ROUND_DOWN (of_int 1 * of_int 15 / 10 ^ 1)"
proof -
  have h: "calculateOutputAmount 1 15 1 = Inr 1"
    by (simp add: calculateOutputAmount_eq MAX_U64_def)
  from calculateOutputAmount_floor [OF h] h show ?thesis
    by simp
qed

text \<open>
  C2. For an unsigned rate \<open>r\<close> and amount \<open>a\<close>, \<open>calculateOutputAmount\<close> raises
  \<open>ARITHMETIC_OVERFLOW\<close> exactly when \<open>a > \<lfloor>MAX_U64 / r\<rfloor>\<close>, and \<open>DIVISION_BY_ZERO\<close>
  exactly when \<open>r = 0\<close>. The quotient is defined for \<open>r > 0\<close>; at \<open>r = 0\<close> the call raises
  \<open>DIVISION_BY_ZERO\<close> and hence not the overflow error.
\<close>

theorem calculateOutputAmount_raises:
  assumes "0 \<le> r" and "0 \<le> a"
  shows "(calculateOutputAmount r a d = Inl (VaultError ARITHMETIC_OVERFLOW))
           = (r \<noteq> 0 \<and> MAX_U64 div r < a)
         \<and> (calculateOutputAmount r a d = Inl (VaultError DIVISION_BY_ZERO)) = (r = 0)"
  using assms by (auto simp: calculateOutputAmount_eq)

theorem calculateOutputAmount_raises_witness:
  "calculateOutputAmount 2 9223372036854775808 9 = Inl (VaultError ARITHMETIC_OVERFLOW)
   \<and> calculateOutputAmount 2 9223372036854775807 9 \<noteq> Inl (VaultError ARITHMETIC_OVERFLOW)
   \<and> calculateOutputAmount 0 5 9 = Inl (VaultError DIVISION_BY_ZERO)"
  using calculateOutputAmount_raises [of 2 9223372036854775808 9]
    calculateOutputAmount_raises [of 2 9223372036854775807 9]
    calculateOutputAmount_raises [of 0 5 9]
  by (simp add: MAX_U64_def)

text \<open>
  C3. The claim: for \<open>r > 0\<close> and \<open>0 \<le> a \<le> \<lfloor>MAX_U64 / r\<rfloor>\<close> the call returns a value of at
  most \<open>MAX_U64\<close> and raises nothing. At rate 1, amount \<open>10^18\<close> and no decimals the
  guards pass and the result is \<open>10^18\<close>, which \<open>toString()\<close> writes as \<^verbatim>\<open>1e+18\<close> under
  \<open>EXPONENTIAL_AT: [-18, 18]\<close>; \<open>BigInt\<close> refuses that text, so the call raises a
  \<open>SyntaxError\<close> instead of returning.
\<close>

theorem calculateOutputAmount_exponential_text:
  "(0 :: int) < 1
   \<and> (0 :: int) \<le> 1000000000000000000
   \<and> 1000000000000000000 \<le> MAX_U64 div 1
   \<and> calculateOutputAmount 1 1000000000000000000 0 = Inl SyntaxError"
  by (simp add: calculateOutputAmount_eq MAX_U64_def)

text \<open>
  C4, as stated: for every \<open>r > 0\<close>, \<open>a\<close> in \<open>[0, MAX_U64]\<close> and \<open>d\<close> in \<open>[0, 18]\<close> the round
  trip yields a value of at most \<open>a\<close>. At rate 2 and amount \<open>MAX_U64\<close> the overflow guard
  of \<open>calculateOutputAmount\<close> raises, and the round trip yields no value.
\<close>

theorem roundTrip_overflow_counterexample:
  "(0 :: int) < 2
   \<and> (0 :: int) \<le> 18446744073709551615
   \<and> 18446744073709551615 \<le> MAX_U64
   \<and> (0 :: nat) \<le> 18
   \<and> roundTrip 2 18446744073709551615 0 = Inl (VaultError ARITHMETIC_OVERFLOW)"
  by (simp add: roundTrip_def calculateOutputAmount_eq MAX_U64_def)

text \<open>
  Whenever both calls of the round trip return, the second result is at most the amount
  the first call started from.
\<close>

lemma roundTrip_le:
  assumes "roundTrip r a d = Inr v"
  shows "v \<le> a"
proof -
  from assms obtain out where out: "calculateOutputAmount r a d = Inr out"
    and inp: "calculateInputAmount r out d = Inr v"
    by (auto simp: roundTrip_def split: sum.splits)
  from out have r: "0 < r" and a: "0 \<le> a" and o: "out = (r * a) div 10 ^ d"
    by (auto simp: calculateOutputAmount_eq split: if_splits)
  from inp have v: "v = (out * 10 ^ d) div r"
    by (auto simp: calculateInputAmount_eq split: if_splits)
  have "10 ^ d * out \<le> r * a"
    by (rule mult_le_of_le_div) (simp_all add: o)
  then have "out * 10 ^ d \<le> r * a"
    by (simp only: mult.commute)
  then have "(out * 10 ^ d) div r \<le> (r * a) div r"
    using r by (intro zdiv_mono1) auto
  also have "\<dots> = a" using r by simp
  finally show "v \<le> a" unfolding v .
qed

text \<open>
  In the range of the guards, and with the amount and the output below \<open>10^18\<close>, the
  round trip returns: the output passes the guards of \<open>calculateInputAmount\<close>, whose
  result is the integer quotient \<open>(out \<times> 10^d) div r\<close>.
\<close>

lemma roundTrip_returns:
  assumes r: "0 < r" and a: "0 \<le> a" and m: "a \<le> MAX_U64 div r"
    and a18: "a < 10 ^ 18" and o18: "(r * a) div 10 ^ d < 10 ^ 18"
  shows "roundTrip r a d = Inr (((r * a) div 10 ^ d * 10 ^ d) div r)"
proof -
  define out where "out = (r * a) div 10 ^ d"
  have out: "calculateOutputAmount r a d = Inr out"
    using r a m o18 by (simp add: calculateOutputAmount_eq out_def not_less)
  have ra: "0 \<le> r * a" using r a by simp
  have o0: "0 \<le> out"
    unfolding out_def using ra by (simp add: pos_imp_zdiv_nonneg_iff)
  have le1: "10 ^ d * out \<le> r * a"
    by (rule mult_le_of_le_div) (simp_all add: out_def)
  have "r * a \<le> MAX_U64"
    using r m by (rule mult_le_of_le_div)
  with le1 have "10 ^ d * out \<le> MAX_U64" by linarith
  then have om: "out \<le> MAX_U64 div 10 ^ d"
    by (intro le_div_of_mult_le) simp_all
  from le1 have "out * 10 ^ d \<le> r * a"
    by (simp only: mult.commute)
  then have "(out * 10 ^ d) div r \<le> (r * a) div r"
    using r by (intro zdiv_mono1) auto
  also have "\<dots> = a" using r by simp
  finally have "(out * 10 ^ d) div r < 10 ^ 18"
    using a18 by linarith
  then have "calculateInputAmount r out d = Inr ((out * 10 ^ d) div r)"
    using r o0 om by (simp add: calculateInputAmount_eq not_less)
  then show ?thesis
    by (simp add: roundTrip_def out out_def)
qed

text \<open>
  C4, amended: for \<open>r > 0\<close> and \<open>0 \<le> a \<le> \<lfloor>MAX_U64 / r\<rfloor>\<close>, with the amount and the output
  \<open>\<lfloor>r \<times> a / 10^d\<rfloor>\<close> below \<open>10^18\<close>, the round trip returns a value, and the value is at
  most \<open>a\<close>; for \<open>a > \<lfloor>MAX_U64 / r\<rfloor>\<close> it raises \<open>ARITHMETIC_OVERFLOW\<close>.
\<close>

theorem roundTrip_never_gains:
  "(0 < r \<and> 0 \<le> a \<and> a \<le> MAX_U64 div r \<and> a < 10 ^ 18 \<and> (r * a) div 10 ^ d < 10 ^ 18
      \<longrightarrow> (\<exists>v. roundTrip r a d = Inr v \<and> v \<le> a))
   \<and> (0 < r \<and> 0 \<le> a \<and> MAX_U64 div r < a
      \<longrightarrow> roundTrip r a d = Inl (VaultError ARITHMETIC_OVERFLOW))"
proof (intro conjI impI)
  assume h: "0 < r \<and> 0 \<le> a \<and> a \<le> MAX_U64 div r \<and> a < 10 ^ 18 \<and> (r * a) div 10 ^ d < 10 ^ 18"
  then have "roundTrip r a d = Inr (((r * a) div 10 ^ d * 10 ^ d) div r)"
    by (intro roundTrip_returns) simp_all
  then show "\<exists>v. roundTrip r a d = Inr v \<and> v \<le> a"
    using roundTrip_le by blast
next
  assume "0 < r \<and> 0 \<le> a \<and> MAX_U64 div r < a"
  then show "roundTrip r a d = Inl (VaultError ARITHMETIC_OVERFLOW)"
    by (simp add: roundTrip_def calculateOutputAmount_eq)
qed

theorem roundTrip_never_gains_witness:
  "roundTrip 3 7 1 = Inr 6 \<and> (6 :: int) \<le> 7
   \<and> roundTrip 2 9223372036854775808 0 = Inl (VaultError ARITHMETIC_OVERFLOW)"
proof -
  have h: "roundTrip 3 7 1 = Inr 6"
    by (simp add: roundTrip_def calculateOutputAmount_eq calculateInputAmount_eq MAX_U64_def)
  have "\<exists>v. roundTrip 3 7 1 = Inr v \<and> v \<le> 7"
    using roundTrip_never_gains [of 3 7 1] by (simp add: MAX_U64_def)
  moreover have "roundTrip 2 9223372036854775808 0 = Inl (VaultError ARITHMETIC_OVERFLOW)"
    using roundTrip_never_gains [of 2 9223372036854775808 0] by (simp add: MAX_U64_def)
  ultimately show ?thesis
    using h by simp
qed

section \<open>Properties of the validation layer\<close>

lemma startsWith_0x: "startsWith s ''0x'' = (\<exists>hex. s = ''0x'' @ hex)"
proof
  assume "startsWith s ''0x''"
  then have "take (length ''0x'') s = ''0x''" by (simp only: startsWith_def)
  then have "s = ''0x'' @ drop (length ''0x'') s" by (metis append_take_drop_id)
  then show "\<exists>hex. s = ''0x'' @ hex" ..
next
  assume "\<exists>hex. s = ''0x'' @ hex"
  then show "startsWith s ''0x''" by (auto simp: startsWith_def)
qed

lemma isValidSuiAddress_iff:
  "isValidSuiAddress s
     = (\<exists>hex. s = ''0x'' @ hex \<and> 1 \<le> length hex \<and> length hex \<le> 64 \<and> list_all isHexDigit hex)"
proof
  assume v: "isValidSuiAddress s"
  then have "startsWith s ''0x''"
    by (auto simp: isValidSuiAddress_def split: if_splits)
  then obtain hex where s: "s = ''0x'' @ hex" by (auto simp: startsWith_0x)
  with v have "1 \<le> length hex \<and> length hex \<le> 64 \<and> list_all isHexDigit hex"
    by (auto simp: isValidSuiAddress_def isHexString_def Let_def Suc_le_eq split: if_splits)
  with s show "\<exists>hex. s = ''0x'' @ hex \<and> 1 \<le> length hex \<and> length hex \<le> 64 \<and> list_all isHexDigit hex"
    by blast
next
  assume "\<exists>hex. s = ''0x'' @ hex \<and> 1 \<le> length hex \<and> length hex \<le> 64 \<and> list_all isHexDigit hex"
  then obtain hex where s: "s = ''0x'' @ hex" and l: "1 \<le> length hex" "length hex \<le> 64"
    and h: "list_all isHexDigit hex" by blast
  from l have "hex \<noteq> []" by auto
  with s l h show "isValidSuiAddress s"
    by (simp add: isValidSuiAddress_def startsWith_def isHexString_def)
qed

text \<open>
  C8. Address validation accepts a text exactly when it is \<open>0x\<close> followed by 1 to 64
  hexadecimal digits, and normalization of an accepted text keeps the prefix and pads
  the hexadecimal part on the left with zeros to exactly 64 digits; \<open>0x1\<close> becomes \<open>0x\<close>,
  63 zeros and \<open>1\<close>.
\<close>

theorem address_validation_and_normalization:
  "isValidSuiAddress s
     = (\<exists>hex. s = ''0x'' @ hex \<and> 1 \<le> length hex \<and> length hex \<le> 64 \<and> list_all isHexDigit hex)
   \<and> (\<forall>hex. s = ''0x'' @ hex \<and> isValidSuiAddress s \<longrightarrow>
          validateSuiAddress s = Inr (''0x'' @ replicate (64 - length hex) (CHR ''0'') @ hex)
          \<and> length (replicate (64 - length hex) (CHR ''0'') @ hex) = 64)
   \<and> (\<not> isValidSuiAddress s \<longrightarrow> validateSuiAddress s = Inl (Error (Invalid_Sui_address s)))"
proof (intro conjI allI impI)
  show "isValidSuiAddress s
     = (\<exists>hex. s = ''0x'' @ hex \<and> 1 \<le> length hex \<and> length hex \<le> 64 \<and> list_all isHexDigit hex)"
    by (rule isValidSuiAddress_iff)
next
  fix hex
  assume "s = ''0x'' @ hex \<and> isValidSuiAddress s"
  then have s: "s = ''0x'' @ hex" and v: "isValidSuiAddress s" by blast+
  from v show "validateSuiAddress s = Inr (''0x'' @ replicate (64 - length hex) (CHR ''0'') @ hex)"
    unfolding s by (simp add: validateSuiAddress_def padStart_def)
  from v have "length hex \<le> 64"
    unfolding s by (auto simp: isValidSuiAddress_iff)
  then show "length (replicate (64 - length hex) (CHR ''0'') @ hex) = 64"
    by simp
next
  assume "\<not> isValidSuiAddress s"
  then show "validateSuiAddress s = Inl (Error (Invalid_Sui_address s))"
    by (simp add: validateSuiAddress_def)
qed

theorem address_validation_and_normalization_witness:
  "isValidSuiAddress ''0x1''
   \<and> validateSuiAddress ''0x1'' = Inr (''0x'' @ replicate 63 (CHR ''0'') @ ''1'')
   \<and> isValidSuiAddress (''0x'' @ replicate 64 (CHR ''a''))
   \<and> \<not> isValidSuiAddress ''1''
   \<and> \<not> isValidSuiAddress ''0xg1''
   \<and> \<not> isValidSuiAddress (''0x'' @ replicate 65 (CHR ''a''))"
proof -
  have hexa: "isHexDigit (CHR ''a'')" and hex1: "isHexDigit (CHR ''1'')"
    and hexg: "\<not> isHexDigit (CHR ''g'')"
    by (simp_all add: isHexDigit_def)
  have v1: "isValidSuiAddress ''0x1''"
    using address_validation_and_normalization [of "''0x1''"] hex1 by simp
  have n1: "validateSuiAddress ''0x1'' = Inr (''0x'' @ replicate 63 (CHR ''0'') @ ''1'')"
    using address_validation_and_normalization [of "''0x1''"] v1 by simp
  have v64: "isValidSuiAddress (''0x'' @ replicate 64 (CHR ''a''))"
    using address_validation_and_normalization [of "''0x'' @ replicate 64 (CHR ''a'')"] hexa
    by (simp add: list_all_iff)
  have r1: "\<not> isValidSuiAddress ''1''"
    using address_validation_and_normalization [of "''1''"] by simp
  have r2: "\<not> isValidSuiAddress ''0xg1''"
    using address_validation_and_normalization [of "''0xg1''"] hexg by simp
  have r3: "\<not> isValidSuiAddress (''0x'' @ replicate 65 (CHR ''a''))"
    using address_validation_and_normalization [of "''0x'' @ replicate 65 (CHR ''a'')"] by simp
  from v1 n1 v64 r1 r2 r3 show ?thesis by blast
qed

lemma validateRate_eq:
  "validateRate r = (if 0 < r then Inr r else Inl (Error (Invalid_rate r)))"
  by (simp add: validateRate_def isValidRate_def)

lemma validateRateDecimals_eq:
  "validateRateDecimals n
     = (if 0 \<le> n \<and> n \<le> 18 then Inr n else Inl (Error (Invalid_rate_decimals n)))"
  by (auto simp: validateRateDecimals_def)

lemma validateStringLength_eq:
  "validateStringLength v mn mx f
     = (case length_violation v mn mx f of None \<Rightarrow> Inr v | Some e \<Rightarrow> Inl e)"
  by (simp add: validateStringLength_def length_violation_def)

lemma validateCoinType_eq:
  "validateCoinType t
     = (if isValidCoinType t then Inr t else Inl (Error (Invalid_coin_type_format t)))"
  by (simp add: validateCoinType_def)

lemma sui_coin_type: "isValidCoinType ''0x2::sui::SUI''"
  by (simp add: isValidCoinType_def isValidSuiAddress_def startsWith_def isHexString_def
      isHexDigit_def isIdentifier_def isIdentStart_def isIdentChar_def)

text \<open>
  C9. The composite validation is the first violation in the fixed list of checks: rate,
  rate decimals, symbol length (1 to 32), name length (1 to 256), description length
  (1 to 1000), input asset type, output asset type, optional icon URL. The outcome is
  one error, that of the first check that fails, and success when none does.
\<close>

theorem validateVaultConfig_first_violation:
  "validateVaultConfig parses c
     = (case first_violation (config_checks parses) c of None \<Rightarrow> Inr () | Some e \<Rightarrow> Inl e)"
  by (simp add: validateVaultConfig_def config_checks_def validateRate_eq validateRateDecimals_eq
      validateStringLength_eq validateCoinType_eq validateUrl_def isValidUrl_def
      split: option.splits)

theorem validateVaultConfig_first_violation_witness:
  "validateVaultConfig (\<lambda>u. False)
     \<lparr>rate = 5, rateDecimals = 19, symbol = '''', name = ''N'', description = ''D'',
      iconUrl = Some ''x'', inputCoinType = ''sui::SUI'', outputCoinType = ''0x2::sui::SUI''\<rparr>
   = Inl (Error (Invalid_rate_decimals 19))"
  by (simp add: validateVaultConfig_first_violation config_checks_def length_violation_def)

section \<open>Properties of the call builder and the client\<close>

lemma isObjectIdString_iff:
  "isObjectIdString s = (\<exists>hex. s = ''0x'' @ hex \<and> length hex = 64 \<and> list_all isHexDigit hex)"
proof
  assume o: "isObjectIdString s"
  then have "take 2 s = ''0x''" by (simp only: isObjectIdString_def)
  then have "s = ''0x'' @ drop 2 s" by (metis append_take_drop_id)
  with o show "\<exists>hex. s = ''0x'' @ hex \<and> length hex = 64 \<and> list_all isHexDigit hex"
    unfolding isObjectIdString_def by blast
next
  assume "\<exists>hex. s = ''0x'' @ hex \<and> length hex = 64 \<and> list_all isHexDigit hex"
  then show "isObjectIdString s" by (auto simp: isObjectIdString_def)
qed

lemma object_id_gate_refuses:
  "\<not> isObjectIdString s \<Longrightarrow> object_id_gate (Id s) = Inl (VaultError INVALID_PARAMETERS)"
  by (simp add: object_id_gate_def)

text \<open>
  The five builders that make one call either append that call or, when the amount or
  rate does not encode, leave the transaction as it was.
\<close>

lemma single_call_builders:
  "snd (buildMintTx tx p v m c i o') = tx @ [MoveCall (vault_target p MINT) [i, o'] [Object v, Object m, object_of c]]"
  "snd (buildRedeemTx tx p v m c i o') = tx @ [MoveCall (vault_target p REDEEM) [i, o'] [Object v, Object m, object_of c]]"
  "snd (buildDepositTx tx p cap v c i o') = tx @ [MoveCall (vault_target p DEPOSIT) [i, o'] [object_of cap, Object v, object_of c]]"
  "snd (buildWithdrawTx tx p cap v n i o') =
     (if 0 \<le> n \<and> n \<le> MAX_U64
      then tx @ [MoveCall (vault_target p WITHDRAW) [i, o'] [object_of cap, Object v, Pure_u64 n]]
      else tx)"
  "snd (buildSetRateTx tx p cap v n i o') =
     (if 0 \<le> n \<and> n \<le> MAX_U64
      then tx @ [MoveCall (vault_target p SET_RATE) [i, o'] [object_of cap, Object v, Pure_u64 n]]
      else tx)"
  by (simp_all add: buildMintTx_def buildRedeemTx_def buildDepositTx_def buildWithdrawTx_def
      buildSetRateTx_def moveCall_def pure_u64_def)

text \<open>
  C5. The claim: no builder throws after having appended some but not all of its
  calls. A configuration with the rate \<open>2^64\<close> passes \<open>validateVaultConfig\<close>, which bounds
  the rate from below only; \<open>buildCreateVaultTx\<close> then appends the \<open>option::none\<close> call,
  and the evaluation of the arguments of the main call throws in \<open>tx.pure.u64\<close>. The
  transaction, empty before, is left with the auxiliary call and without the
  \<open>create_vault\<close> call.
\<close>

theorem createVault_partial_append:
  "validateVaultConfig (\<lambda>u. True)
     \<lparr>rate = 18446744073709551616, rateDecimals = 9, symbol = ''S'', name = ''N'',
      description = ''D'', iconUrl = None, inputCoinType = ''0x2::sui::SUI'',
      outputCoinType = ''0x2::sui::SUI''\<rparr> = Inr ()
   \<and> createVault \<lparr>packageId = ''0x9'', inferOutputTypeFromVault = (\<lambda>v. Inr ''0x2::sui::SUI'')\<rparr>
       (\<lambda>u. True)
       \<lparr>rate = 18446744073709551616, rateDecimals = 9, symbol = ''S'', name = ''N'',
        description = ''D'', iconUrl = None, inputCoinType = ''0x2::sui::SUI'',
        outputCoinType = ''0x2::sui::SUI''\<rparr>
       (Id ''0x5'') []
     = (Inl TypeError, [MoveCall ''0x1::option::none'' [''0x2::url::Url''] []])"
proof -
  note sui = sui_coin_type
  have ok: "validateVaultConfig (\<lambda>u. True)
     \<lparr>rate = 18446744073709551616, rateDecimals = 9, symbol = ''S'', name = ''N'',
      description = ''D'', iconUrl = None, inputCoinType = ''0x2::sui::SUI'',
      outputCoinType = ''0x2::sui::SUI''\<rparr> = Inr ()"
    by (simp add: validateVaultConfig_def validateRate_eq validateRateDecimals_eq
        validateStringLength_def validateCoinType_eq sui)
  show ?thesis
    by (simp add: createVault_def ok buildCreateVaultTx_def moveCall_def first_of_def
        pure_u64_def MAX_U64_def)
qed

text \<open>
  A text given as the input coin of \<open>mint_and_transfer\<close> that is not \<open>0x\<close> followed by 64
  hexadecimal digits makes the call fail and leaves the transaction as it was, whatever
  the other parameters are. The coin types are checked before the input coin: when both
  are well-formed the error is the \<open>VaultError\<close> with code \<open>INVALID_PARAMETERS\<close>, and
  otherwise it is the plain \<open>Error\<close> of \<open>validateCoinType\<close>.
\<close>

lemma mint_and_transfer_non_object_id:
  assumes "\<not> (\<exists>hex. s = ''0x'' @ hex \<and> length hex = 64 \<and> list_all isHexDigit hex)"
  shows "mint_and_transfer client pure_address vaultId metadataId (Id s) inT outT recipient tx
           = (if \<not> isValidCoinType inT then (Inl (Error (Invalid_coin_type_format inT)), tx)
              else if \<not> isValidCoinType outT then (Inl (Error (Invalid_coin_type_format outT)), tx)
              else (Inl (VaultError INVALID_PARAMETERS), tx))"
proof -
  from assms have "\<not> isObjectIdString s"
    by (simp only: isObjectIdString_iff not_False_eq_True)
  then have g: "object_id_gate (Id s) = Inl (VaultError INVALID_PARAMETERS)"
    by (rule object_id_gate_refuses)
  show ?thesis
    by (simp add: mint_and_transfer_def validateCoinType_eq g)
qed

lemma malformed_module_coin_type: "\<not> isValidCoinType ''0x2::1abc::SUI''"
  by (simp add: isValidCoinType_def isValidSuiAddress_def startsWith_def isHexString_def
      isHexDigit_def isIdentifier_def isIdentStart_def isIdentChar_def)

text \<open>
  C6. The claim: every text given as the input coin of \<open>mint_and_transfer\<close> that is not
  an object id makes the call fail with a \<open>VaultError\<close> of code \<open>INVALID_PARAMETERS\<close>,
  with no call appended. With the bare amount \<open>1000000000\<close> as input coin and the input
  coin type \<open>0x2::1abc::SUI\<close>, whose module name starts with a digit, nothing is appended,
  but the error is the plain \<open>Error\<close> that \<open>validateCoinType\<close> throws before the input
  coin is looked at, not a \<open>VaultError\<close>.
\<close>

theorem mint_and_transfer_plain_error:
  "\<not> isObjectIdString ''1000000000''
   \<and> mint_and_transfer \<lparr>packageId = ''0x9'', inferOutputTypeFromVault = (\<lambda>v. Inr ''0x2::sui::SUI'')\<rparr>
       (\<lambda>a. Inr (Pure_address a)) ''0x5'' ''0x6'' (Id ''1000000000'') ''0x2::1abc::SUI''
       ''0x2::sui::SUI'' ''0x7'' []
     = (Inl (Error (Invalid_coin_type_format ''0x2::1abc::SUI'')), [])"
  by (simp add: isObjectIdString_def mint_and_transfer_def validateCoinType_eq
      malformed_module_coin_type)

text \<open>
  For a configuration whose rate is an unsigned 64-bit value and whose rate decimals are
  in \<open>[0, 18]\<close>, \<open>buildCreateVaultTx\<close> appends, with no icon URL, the one call
  \<open>0x1::option::none\<close> and then the \<open>create_vault\<close> call, and with a non-empty icon URL
  the two calls \<open>0x2::url::new_unsafe\<close> and \<open>0x1::option::some\<close> (on the result of the
  first) and then the \<open>create_vault\<close> call, whose last argument is the option value. It
  appends nothing else.
\<close>

lemma buildCreateVaultTx_option_encoding:
  assumes "0 \<le> rate p" and "rate p \<le> MAX_U64"
    and "0 \<le> rateDecimals p" and "rateDecimals p \<le> 18"
  shows "(iconUrl p = None \<longrightarrow>
            buildCreateVaultTx tx pkg p =
              (Inr (),
               tx @ [MoveCall ''0x1::option::none'' [''0x2::url::Url''] [],
                     MoveCall (pkg @ ''::vault::create_vault'')
                       [inputCoinType p, outputCoinType p]
                       [Pure_u64 (rate p), object_of (outputCoinTreasury p),
                        Pure_u8 (rateDecimals p), Pure_vector_u8 (encode (symbol p)),
                        Pure_vector_u8 (encode (name p)), Pure_vector_u8 (encode (description p)),
                        NestedResult (length tx) 0]]))
         \<and> (\<forall>url. iconUrl p = Some url \<and> url \<noteq> [] \<longrightarrow>
            buildCreateVaultTx tx pkg p =
              (Inr (),
               tx @ [MoveCall ''0x2::url::new_unsafe'' [] [Pure_string url],
                     MoveCall ''0x1::option::some'' [''0x2::url::Url''] [NestedResult (length tx) 0],
                     MoveCall (pkg @ ''::vault::create_vault'')
                       [inputCoinType p, outputCoinType p]
                       [Pure_u64 (rate p), object_of (outputCoinTreasury p),
                        Pure_u8 (rateDecimals p), Pure_vector_u8 (encode (symbol p)),
                        Pure_vector_u8 (encode (name p)), Pure_vector_u8 (encode (description p)),
                        NestedResult (Suc (length tx)) 0]]))"
  using assms
  by (simp add: buildCreateVaultTx_def moveCall_def first_of_def pure_u64_def pure_u8_def
      vault_target_def VAULT_MODULES_VAULT_def CREATE_VAULT_def)

text \<open>
  C7. The claim: for every valid vault configuration \<open>buildCreateVaultTx\<close> appends one
  auxiliary call (no icon URL) or two (non-empty icon URL) before the main
  \<open>create_vault\<close> call. A configuration with the rate \<open>2^64\<close> is valid for
  \<open>validateVaultConfig\<close>; on it the builder appends the auxiliary call or calls and
  then throws in \<open>tx.pure.u64\<close>, so no main call follows them.
\<close>

theorem buildCreateVaultTx_no_main_call:
  "validateVaultConfig (\<lambda>u. True)
     \<lparr>rate = 18446744073709551616, rateDecimals = 9, symbol = ''S'', name = ''N'',
      description = ''D'', iconUrl = Some ''https://a.b/i.png'',
      inputCoinType = ''0x2::sui::SUI'', outputCoinType = ''0x2::sui::SUI'',
      outputCoinTreasury = Id ''0x5''\<rparr> = Inr ()
   \<and> buildCreateVaultTx [] ''0x9''
       \<lparr>rate = 18446744073709551616, rateDecimals = 9, symbol = ''S'', name = ''N'',
        description = ''D'', iconUrl = None,
        inputCoinType = ''0x2::sui::SUI'', outputCoinType = ''0x2::sui::SUI'',
        outputCoinTreasury = Id ''0x5''\<rparr>
     = (Inl TypeError, [MoveCall ''0x1::option::none'' [''0x2::url::Url''] []])
   \<and> buildCreateVaultTx [] ''0x9''
       \<lparr>rate = 18446744073709551616, rateDecimals = 9, symbol = ''S'', name = ''N'',
        description = ''D'', iconUrl = Some ''https://a.b/i.png'',
        inputCoinType = ''0x2::sui::SUI'', outputCoinType = ''0x2::sui::SUI'',
        outputCoinTreasury = Id ''0x5''\<rparr>
     = (Inl TypeError,
        [MoveCall ''0x2::url::new_unsafe'' [] [Pure_string ''https://a.b/i.png''],
         MoveCall ''0x1::option::some'' [''0x2::url::Url''] [NestedResult 0 0]])"
proof -
  note sui = sui_coin_type
  have ok: "validateVaultConfig (\<lambda>u. True)
     \<lparr>rate = 18446744073709551616, rateDecimals = 9, symbol = ''S'', name = ''N'',
      description = ''D'', iconUrl = Some ''https://a.b/i.png'',
      inputCoinType = ''0x2::sui::SUI'', outputCoinType = ''0x2::sui::SUI'',
      outputCoinTreasury = Id ''0x5''\<rparr> = Inr ()"
    by (simp add: validateVaultConfig_def validateRate_eq validateRateDecimals_eq
        validateStringLength_def validateCoinType_eq validateUrl_def isValidUrl_def sui)
  show ?thesis
    by (simp add: ok buildCreateVaultTx_def moveCall_def first_of_def pure_u64_def MAX_U64_def)
qed



end
